theory Spec2Isabelle
  imports Complex_Main "HOL-Library.Sublist"
begin

section \<open>Car Chooser: the decision engine of streamlit\_app.py\<close>

text \<open>
  The theory embeds the five pure functions of \<^verbatim>\<open>src/streamlit_app.py\<close> that make up
  the recommendation core: \<^verbatim>\<open>calculate_incentive\<close>, \<^verbatim>\<open>calculate_tco\<close>,
  \<^verbatim>\<open>score_vehicle\<close>, \<^verbatim>\<open>filter_vehicles\<close> and \<^verbatim>\<open>recommend_powertrain\<close>.

  Conventions of the embedding:
  \<^item> Python numbers (\<^verbatim>\<open>int\<close> and \<^verbatim>\<open>float\<close>) that take part in mixed arithmetic are
    modelled as \<open>real\<close>s; fields the dataclass declares \<^verbatim>\<open>int\<close> are \<open>int\<close>.
    The annual energy cost is computed in binary64 arithmetic, each operation rounded
    as IEEE 754 rounds it (\<open>f64\<close> below); the other quantities are exact.
    Infinities, NaN and subnormal numbers are outside the model.
  \<^item> A vehicle is a Python \<^verbatim>\<open>dict\<close> read only through \<^verbatim>\<open>.get(key, default)\<close>.
    It is modelled as a record whose fields are \<open>option\<close>s: \<open>None\<close> is an absent
    key, \<open>Some x\<close> a key present with a value of the type the catalog uses for it.
    Keys the core never reads live in the record's extension slot.
  \<^item> An exception is a value: functions with a raising statement return
    \<open>py_error + 'a\<close>, with \<open>Inl\<close> for the exception.
\<close>

subsection \<open>Enums and data classes\<close>

datatype VehicleType = SEDAN | SUV | HATCHBACK | TRUCK | CROSSOVER | WAGON | MINIVAN

fun VehicleType_value :: "VehicleType \<Rightarrow> string" where
  "VehicleType_value SEDAN = ''sedan''"
| "VehicleType_value SUV = ''suv''"
| "VehicleType_value HATCHBACK = ''hatchback''"
| "VehicleType_value TRUCK = ''truck''"
| "VehicleType_value CROSSOVER = ''crossover''"
| "VehicleType_value WAGON = ''wagon''"
| "VehicleType_value MINIVAN = ''minivan''"

datatype Region =
    USA_FEDERAL | USA_CALIFORNIA | USA_COLORADO | USA_NEW_JERSEY | USA_NEW_YORK | USA_TEXAS
  | CANADA_FEDERAL | CANADA_QUEBEC | CANADA_BC | CANADA_ONTARIO
  | UK | GERMANY | FRANCE | NETHERLANDS | NORWAY | AUSTRALIA | PORTUGAL

fun Region_value :: "Region \<Rightarrow> string" where
  "Region_value USA_FEDERAL = ''usa_federal''"
| "Region_value USA_CALIFORNIA = ''usa_california''"
| "Region_value USA_COLORADO = ''usa_colorado''"
| "Region_value USA_NEW_JERSEY = ''usa_new_jersey''"
| "Region_value USA_NEW_YORK = ''usa_new_york''"
| "Region_value USA_TEXAS = ''usa_texas''"
| "Region_value CANADA_FEDERAL = ''canada_federal''"
| "Region_value CANADA_QUEBEC = ''canada_quebec''"
| "Region_value CANADA_BC = ''canada_bc''"
| "Region_value CANADA_ONTARIO = ''canada_ontario''"
| "Region_value UK = ''uk''"
| "Region_value GERMANY = ''germany''"
| "Region_value FRANCE = ''france''"
| "Region_value NETHERLANDS = ''netherlands''"
| "Region_value NORWAY = ''norway''"
| "Region_value AUSTRALIA = ''australia''"
| "Region_value PORTUGAL = ''portugal''"

text \<open>The dataclass \<^verbatim>\<open>UserPreferences\<close>, field for field.\<close>

record UserPreferences =
  daily_commute_km :: real
  annual_km :: real
  long_trips_frequency :: string
  typical_long_trip_km :: real
  home_charging_available :: bool
  home_charging_type :: string
  work_charging_available :: bool
  public_charging_reliance :: string
  max_budget :: real
  min_budget :: real
  consider_incentives :: bool
  region :: Region
  ownership_years :: int
  expected_resale_percent :: real
  electricity_cost_kwh :: real
  gas_cost_liter :: real
  vehicle_types :: "VehicleType list"
  min_seats :: int
  min_cargo_liters :: int
  needs_awd :: bool
  needs_towing :: bool
  min_towing_kg :: int
  range_priority :: int
  charging_speed_priority :: int
  acceleration_priority :: int
  efficiency_priority :: int
  tech_features_priority :: int
  safety_priority :: int
  reliability_priority :: int
  cargo_priority :: int
  zero_emissions_priority :: int
  preferred_brands :: "string list"
  excluded_brands :: "string list"

text \<open>The defaults the dataclass declares.\<close>

definition default_preferences :: UserPreferences where
  "default_preferences =
     \<lparr> daily_commute_km = 50, annual_km = 20000, long_trips_frequency = ''rarely'',
       typical_long_trip_km = 400, home_charging_available = True,
       home_charging_type = ''level2'', work_charging_available = False,
       public_charging_reliance = ''low'', max_budget = 50000, min_budget = 0,
       consider_incentives = True, region = USA_FEDERAL, ownership_years = 5,
       expected_resale_percent = 50, electricity_cost_kwh = 15 / 100,
       gas_cost_liter = 150 / 100, vehicle_types = [SEDAN, SUV], min_seats = 5,
       min_cargo_liters = 300, needs_awd = False, needs_towing = False,
       min_towing_kg = 0, range_priority = 3, charging_speed_priority = 3,
       acceleration_priority = 2, efficiency_priority = 3, tech_features_priority = 3,
       safety_priority = 4, reliability_priority = 4, cargo_priority = 3,
       zero_emissions_priority = 3, preferred_brands = [], excluded_brands = [] \<rparr>"

text \<open>
  The keys of a vehicle dict that the core reads. Every key may be absent; the
  default is supplied at each read, as \<^verbatim>\<open>.get(key, default)\<close> does.
\<close>

record vehicle =
  name :: "string option"
  brand :: "string option"
  powertrain :: "string option"
  vehicle_type :: "string option"
  base_price :: "real option"
  range_km :: "real option"
  dc_charging_kw :: "real option"
  kwh_per_100km :: "real option"
  l_per_100km :: "real option"
  zero_to_100_kmh :: "real option"
  safety_rating_ncap :: "real option"
  reliability_score :: "real option"
  cargo_liters :: "real option"
  seats :: "real option"
  awd :: "bool option"
  towing_capacity_kg :: "real option"
  made_in_north_america :: "bool option"
  autopilot_available :: "bool option"
  ota_updates :: "bool option"
  heat_pump :: "bool option"
  v2l_capable :: "bool option"
  v2h_capable :: "bool option"

definition dict_get :: "'a option \<Rightarrow> 'a \<Rightarrow> 'a" where
  "dict_get field dflt = (case field of None \<Rightarrow> dflt | Some x \<Rightarrow> x)"

text \<open>The first catalog entry of \<^verbatim>\<open>load_vehicle_database\<close>.\<close>

definition tesla_model_3_sr :: vehicle where
  "tesla_model_3_sr =
     \<lparr> name = Some ''Tesla Model 3 Standard Range'', brand = Some ''Tesla'',
       powertrain = Some ''EV'', vehicle_type = Some ''sedan'', base_price = Some 40240,
       range_km = Some 438, dc_charging_kw = Some 170, kwh_per_100km = Some (137 / 10),
       l_per_100km = None, zero_to_100_kmh = Some (61 / 10), safety_rating_ncap = Some 5,
       reliability_score = Some (35 / 10), cargo_liters = Some 561, seats = Some 5,
       awd = Some False, towing_capacity_kg = Some 0, made_in_north_america = Some True,
       autopilot_available = Some True, ota_updates = Some True, heat_pump = Some True,
       v2l_capable = Some False, v2h_capable = Some False \<rparr>"

text \<open>A record as the catalog import produces it: no key the core reads is present.\<close>

definition empty_vehicle :: vehicle where
  "empty_vehicle =
     \<lparr> name = None, brand = None, powertrain = None, vehicle_type = None, base_price = None,
       range_km = None, dc_charging_kw = None, kwh_per_100km = None, l_per_100km = None,
       zero_to_100_kmh = None, safety_rating_ncap = None, reliability_score = None,
       cargo_liters = None, seats = None, awd = None, towing_capacity_kg = None,
       made_in_north_america = None, autopilot_available = None, ota_updates = None,
       heat_pump = None, v2l_capable = None, v2h_capable = None \<rparr>"

subsection \<open>Incentive calculator\<close>

text \<open>
  A row of \<^verbatim>\<open>get_incentives_data\<close>. The display label (\<^verbatim>\<open>"name"\<close>) is never read by
  the core and is left out.
\<close>

record incentive_row =
  ev :: real
  phev :: real

definition get_incentives_data :: "(string \<times> incentive_row) list" where
  "get_incentives_data =
     [ (''usa_federal'', \<lparr>ev = 7500, phev = 3750\<rparr>),
       (''usa_california'', \<lparr>ev = 9500, phev = 5750\<rparr>),
       (''usa_colorado'', \<lparr>ev = 12500, phev = 6250\<rparr>),
       (''usa_new_jersey'', \<lparr>ev = 11500, phev = 3750\<rparr>),
       (''usa_new_york'', \<lparr>ev = 10000, phev = 4250\<rparr>),
       (''usa_texas'', \<lparr>ev = 10000, phev = 6250\<rparr>),
       (''canada_federal'', \<lparr>ev = 5000, phev = 2500\<rparr>),
       (''canada_quebec'', \<lparr>ev = 12000, phev = 7500\<rparr>),
       (''canada_bc'', \<lparr>ev = 9000, phev = 4500\<rparr>),
       (''canada_ontario'', \<lparr>ev = 5000, phev = 2500\<rparr>),
       (''uk'', \<lparr>ev = 1500, phev = 0\<rparr>),
       (''germany'', \<lparr>ev = 4500, phev = 0\<rparr>),
       (''france'', \<lparr>ev = 5000, phev = 0\<rparr>),
       (''netherlands'', \<lparr>ev = 2950, phev = 0\<rparr>),
       (''norway'', \<lparr>ev = 0, phev = 0\<rparr>),
       (''australia'', \<lparr>ev = 3000, phev = 0\<rparr>) ]"

text \<open>\<^verbatim>\<open>str.startswith\<close>.\<close>

definition startswith :: "string \<Rightarrow> string \<Rightarrow> bool" where
  "startswith s pre = (take (length pre) s = pre)"

text \<open>
  \<^verbatim>\<open>calculate_incentive\<close>, branch for branch. \<open>amount\<close> names the expression
  \<^verbatim>\<open>region_data.get("ev" if powertrain == "EV" else "phev", 0)\<close>, which the source writes
  twice; both keys are present in every row, so its default is never taken.
  \<open>after_cap\<close> names the statements that follow the two price tests inside the
  \<^verbatim>\<open>usa\<close> block: the origin test, then the fall-through to the final \<^verbatim>\<open>return\<close>.
\<close>

definition calculate_incentive :: "vehicle \<Rightarrow> string \<Rightarrow> real" where
  "calculate_incentive vehicle_data rgn =
     (let region_data = (case map_of get_incentives_data rgn of
                           None \<Rightarrow> \<lparr>ev = 0, phev = 0\<rparr>
                         | Some row \<Rightarrow> row);
          pt = dict_get (powertrain vehicle_data) ''EV'';
          price = dict_get (base_price vehicle_data) 0;
          amount = (if pt = ''EV'' then ev region_data else phev region_data)
      in if startswith rgn ''usa'' then
           (let vt = dict_get (vehicle_type vehicle_data) ''sedan'';
                after_cap =
                  (if \<not> dict_get (made_in_north_america vehicle_data) False
                   then amount * (5 / 10)
                   else amount)
            in if vt \<in> set [''sedan'', ''hatchback'']
               then (if price > 55000 then 0 else after_cap)
               else (if price > 80000 then 0 else after_cap))
         else amount)"

subsection \<open>TCO calculator\<close>

datatype py_error = ZeroDivisionError

text \<open>Python's \<^verbatim>\<open>/\<close>: a zero divisor raises.\<close>

definition py_div :: "real \<Rightarrow> real \<Rightarrow> py_error + real" where
  "py_div a b = (if b = 0 then Inl ZeroDivisionError else Inr (a / b))"

record TCOResult =
  vehicle_name :: string
  purchase_price :: real
  incentives_total :: real
  net_purchase_price :: real
  annual_fuel_cost :: real
  annual_maintenance_cost :: real
  annual_insurance_cost :: real
  annual_registration_cost :: real
  total_fuel_cost :: real
  total_maintenance_cost :: real
  total_insurance_cost :: real
  total_registration_cost :: real
  depreciation :: real
  total_cost_of_ownership :: real
  cost_per_km :: real
  cost_per_year :: real
  savings_vs_avg_ice :: real

definition region_insurance_map :: "(string \<times> real) list" where
  "region_insurance_map =
     [ (''usa_federal'', 1800), (''usa_california'', 2000), (''usa_colorado'', 1700),
       (''usa_new_jersey'', 2100), (''usa_new_york'', 2200), (''usa_texas'', 1600),
       (''canada_federal'', 1400), (''canada_quebec'', 1200), (''canada_bc'', 1300),
       (''canada_ontario'', 1350), (''uk'', 900), (''germany'', 800), (''france'', 850),
       (''netherlands'', 950), (''norway'', 1000), (''australia'', 1100),
       (''portugal'', 700) ]"

text \<open>
  Binary64 arithmetic. A positive number is scaled by powers of two until its value
  lies between \<open>2 ^ 52\<close> and \<open>2 ^ 53\<close>, rounded to the nearest integer, a tie going
  to the even one, and scaled back: the nearest number with a significand of 53 bits.
  The fuel of the scaling loop exceeds the exponent range of the format. An operation
  on doubles is the exact operation followed by this rounding.
\<close>

definition round_half_even :: "real \<Rightarrow> int" where
  "round_half_even y =
     (let f = \<lfloor>y\<rfloor>; d = y - real_of_int f
      in if d < 1 / 2 then f
         else if d > 1 / 2 then f + 1
         else if even f then f
         else f + 1)"

fun f64_normalise :: "nat \<Rightarrow> real \<Rightarrow> real \<Rightarrow> real \<times> real" where
  "f64_normalise 0 m s = (m, s)"
| "f64_normalise (Suc fuel) m s =
     (if 2 ^ 53 \<le> m then f64_normalise fuel (m / 2) (s * 2)
      else if m < 2 ^ 52 then f64_normalise fuel (m * 2) (s / 2)
      else (m, s))"

definition f64 :: "real \<Rightarrow> real" where
  "f64 x =
     (if x = 0 then 0
      else (case f64_normalise 2200 \<bar>x\<bar> 1 of
              (m, s) \<Rightarrow> sgn x * real_of_int (round_half_even m) * s))"

definition f64_add :: "real \<Rightarrow> real \<Rightarrow> real" where
  "f64_add a b = f64 (a + b)"

definition f64_sub :: "real \<Rightarrow> real \<Rightarrow> real" where
  "f64_sub a b = f64 (a - b)"

definition f64_mul :: "real \<Rightarrow> real \<Rightarrow> real" where
  "f64_mul a b = f64 (a * b)"

definition f64_div :: "real \<Rightarrow> real \<Rightarrow> real" where
  "f64_div a b = f64 (a / b)"

text \<open>
  The local variables of \<^verbatim>\<open>calculate_tco\<close>, one definition each, in the order the
  source assigns them. The divisions by the literals 100 and 10000 cannot raise and
  are written with \<open>/\<close>, or with \<open>f64_div\<close> where the quotient is rounded.
\<close>

definition tco_incentive :: "vehicle \<Rightarrow> UserPreferences \<Rightarrow> real" where
  "tco_incentive vehicle_data preferences =
     calculate_incentive vehicle_data (Region_value (region preferences))"

definition tco_purchase_price :: "vehicle \<Rightarrow> real" where
  "tco_purchase_price vehicle_data = dict_get (base_price vehicle_data) 0 + 1500"

definition tco_net_purchase_price :: "vehicle \<Rightarrow> UserPreferences \<Rightarrow> real" where
  "tco_net_purchase_price vehicle_data preferences =
     tco_purchase_price vehicle_data - tco_incentive vehicle_data preferences"

text \<open>
  The annual energy cost, in binary64. A value read from the record or the
  preferences is the double nearest to it, as a decimal literal or a slider value is
  in the source.
\<close>

definition tco_annual_fuel_cost :: "vehicle \<Rightarrow> UserPreferences \<Rightarrow> real" where
  "tco_annual_fuel_cost vehicle_data preferences =
     (let akm = f64 (annual_km preferences);
          pt = dict_get (powertrain vehicle_data) ''EV''
      in if pt = ''EV'' then
           (let kwh = f64 (dict_get (kwh_per_100km vehicle_data) 18);
                annual_kwh = f64_mul (f64_div kwh 100) akm
            in f64_mul annual_kwh (f64 (electricity_cost_kwh preferences)))
         else
           (let electric_range = f64 (dict_get (range_km vehicle_data) 50);
                daily_km = f64 (daily_commute_km preferences);
                electric_ratio =
                  (if electric_range \<ge> daily_km then f64 (70 / 100)
                   else if electric_range \<ge> f64_mul daily_km (f64 (5 / 10)) then f64 (50 / 100)
                   else f64 (30 / 100));
                electric_km = f64_mul akm electric_ratio;
                gas_km = f64_mul akm (f64_sub 1 electric_ratio);
                kwh = f64 (dict_get (kwh_per_100km vehicle_data) 18);
                l = f64 (dict_get (l_per_100km vehicle_data) 6);
                electric_cost =
                  f64_mul (f64_mul (f64_div kwh 100) electric_km)
                    (f64 (electricity_cost_kwh preferences));
                gas_cost =
                  f64_mul (f64_mul (f64_div l 100) gas_km) (f64 (gas_cost_liter preferences))
            in f64_add electric_cost gas_cost))"

definition tco_annual_maintenance :: "vehicle \<Rightarrow> UserPreferences \<Rightarrow> real" where
  "tco_annual_maintenance vehicle_data preferences =
     (if dict_get (powertrain vehicle_data) ''EV'' = ''EV''
      then annual_km preferences * (3 / 100)
      else annual_km preferences * (5 / 100))"

definition tco_annual_insurance :: "vehicle \<Rightarrow> UserPreferences \<Rightarrow> real" where
  "tco_annual_insurance vehicle_data preferences =
     (let region_key = Region_value (region preferences);
          base_insurance = (case map_of region_insurance_map region_key of
                              None \<Rightarrow> 1500 | Some b \<Rightarrow> b);
          price_factor = (dict_get (base_price vehicle_data) 40000 / 10000) * 100
      in base_insurance + price_factor)"

definition tco_annual_registration :: "vehicle \<Rightarrow> real" where
  "tco_annual_registration vehicle_data =
     (if dict_get (powertrain vehicle_data) ''EV'' = ''EV'' then 150 else 200)"

definition tco_resale_value :: "vehicle \<Rightarrow> UserPreferences \<Rightarrow> real" where
  "tco_resale_value vehicle_data preferences =
     (let resale_percent =
            (if dict_get (powertrain vehicle_data) ''EV'' = ''EV'' then 45 else 40)
      in tco_net_purchase_price vehicle_data preferences * (resale_percent / 100))"

definition tco_total_tco :: "vehicle \<Rightarrow> UserPreferences \<Rightarrow> real" where
  "tco_total_tco vehicle_data preferences =
     (let years = real_of_int (ownership_years preferences)
      in tco_net_purchase_price vehicle_data preferences
           - tco_resale_value vehicle_data preferences
           + tco_annual_fuel_cost vehicle_data preferences * years
           + tco_annual_maintenance vehicle_data preferences * years
           + tco_annual_insurance vehicle_data preferences * years
           + tco_annual_registration vehicle_data * years)"

definition tco_ice_total :: "UserPreferences \<Rightarrow> real" where
  "tco_ice_total preferences =
     (let years = real_of_int (ownership_years preferences);
          ice_annual_fuel = (9 / 100) * annual_km preferences * gas_cost_liter preferences;
          ice_annual_maintenance = annual_km preferences * (7 / 100)
      in 40000 * (5 / 10) + ice_annual_fuel * years + ice_annual_maintenance * years
           + 1500 * years + 150 * years)"

text \<open>
  \<^verbatim>\<open>calculate_tco\<close>. The keyword arguments of the \<^verbatim>\<open>TCOResult(...)\<close> call are evaluated
  in order, so \<^verbatim>\<open>cost_per_km\<close> is computed (and may raise) before \<^verbatim>\<open>cost_per_year\<close>.
\<close>

definition calculate_tco :: "vehicle \<Rightarrow> UserPreferences \<Rightarrow> py_error + TCOResult" where
  "calculate_tco vehicle_data preferences =
     (let akm = annual_km preferences;
          years = real_of_int (ownership_years preferences);
          total_tco = tco_total_tco vehicle_data preferences
      in case (if akm > 0 then py_div total_tco (akm * years) else Inr 0) of
           Inl e \<Rightarrow> Inl e
         | Inr per_km \<Rightarrow>
             (case py_div total_tco years of
                Inl e \<Rightarrow> Inl e
              | Inr per_year \<Rightarrow>
                  Inr \<lparr> vehicle_name = dict_get (name vehicle_data) ''Unknown'',
                        purchase_price = tco_purchase_price vehicle_data,
                        incentives_total = tco_incentive vehicle_data preferences,
                        net_purchase_price = tco_net_purchase_price vehicle_data preferences,
                        annual_fuel_cost = tco_annual_fuel_cost vehicle_data preferences,
                        annual_maintenance_cost = tco_annual_maintenance vehicle_data preferences,
                        annual_insurance_cost = tco_annual_insurance vehicle_data preferences,
                        annual_registration_cost = tco_annual_registration vehicle_data,
                        total_fuel_cost = tco_annual_fuel_cost vehicle_data preferences * years,
                        total_maintenance_cost =
                          tco_annual_maintenance vehicle_data preferences * years,
                        total_insurance_cost =
                          tco_annual_insurance vehicle_data preferences * years,
                        total_registration_cost = tco_annual_registration vehicle_data * years,
                        depreciation = tco_net_purchase_price vehicle_data preferences
                                         - tco_resale_value vehicle_data preferences,
                        total_cost_of_ownership = total_tco,
                        cost_per_km = per_km,
                        cost_per_year = per_year,
                        savings_vs_avg_ice = tco_ice_total preferences - total_tco \<rparr>))"

subsection \<open>Scoring engine\<close>

text \<open>
  \<^verbatim>\<open>round(x, 1)\<close> on exact numbers: the nearest multiple of one tenth, a tie going to
  the even one.
\<close>

definition py_round1 :: "real \<Rightarrow> real" where
  "py_round1 x =
     (let y = x * 10; f = \<lfloor>y\<rfloor>; d = y - real_of_int f
      in (if d < 1 / 2 then real_of_int f
          else if d > 1 / 2 then real_of_int (f + 1)
          else if even f then real_of_int f
          else real_of_int (f + 1)) / 10)"

record ScoreResult =
  final_score :: real
  category_scores :: "(string \<times> real) list"
  brand_bonus :: real

text \<open>The eight sub-scores, in the order \<^verbatim>\<open>score_vehicle\<close> computes them.\<close>

definition range_score :: "vehicle \<Rightarrow> UserPreferences \<Rightarrow> real" where
  "range_score vehicle_data preferences =
     (let daily_need = daily_commute_km preferences;
          vehicle_range = dict_get (range_km vehicle_data) 0
      in if vehicle_range \<ge> daily_need * 5 then 10
         else if vehicle_range \<ge> daily_need * 3 then 8
         else if vehicle_range \<ge> daily_need * 2 then 6
         else if vehicle_range \<ge> daily_need * (15 / 10) then 4
         else 2)"

definition charging_score :: "vehicle \<Rightarrow> real" where
  "charging_score vehicle_data =
     (let dc_kw = dict_get (dc_charging_kw vehicle_data) 0
      in if dc_kw \<ge> 250 then 10
         else if dc_kw \<ge> 200 then 8
         else if dc_kw \<ge> 150 then 6
         else if dc_kw \<ge> 100 then 4
         else 2)"

definition eff_score :: "vehicle \<Rightarrow> real" where
  "eff_score vehicle_data =
     (let efficiency = dict_get (kwh_per_100km vehicle_data) 20
      in if efficiency \<le> 14 then 10
         else if efficiency \<le> 16 then 8
         else if efficiency \<le> 18 then 6
         else if efficiency \<le> 20 then 4
         else 2)"

definition accel_score :: "vehicle \<Rightarrow> real" where
  "accel_score vehicle_data =
     (let zero_to_100 = dict_get (zero_to_100_kmh vehicle_data) 8
      in if zero_to_100 \<le> 35 / 10 then 10
         else if zero_to_100 \<le> 45 / 10 then 8
         else if zero_to_100 \<le> 55 / 10 then 6
         else if zero_to_100 \<le> 7 then 4
         else 2)"

definition safety_score :: "vehicle \<Rightarrow> real" where
  "safety_score vehicle_data = dict_get (safety_rating_ncap vehicle_data) 5 * 2"

definition reliability_score_x2 :: "vehicle \<Rightarrow> real" where
  "reliability_score_x2 vehicle_data = dict_get (reliability_score vehicle_data) 4 * 2"

definition cargo_score :: "vehicle \<Rightarrow> UserPreferences \<Rightarrow> real" where
  "cargo_score vehicle_data preferences =
     (let cargo = dict_get (cargo_liters vehicle_data) 400;
          m = real_of_int (min_cargo_liters preferences)
      in if cargo \<ge> m * 2 then 10
         else if cargo \<ge> m * (15 / 10) then 8
         else if cargo \<ge> m then 6
         else 4)"

text \<open>A flag read with \<^verbatim>\<open>.get(key)\<close> and tested for truth: an absent key is false.\<close>

definition tech_score :: "vehicle \<Rightarrow> real" where
  "tech_score vehicle_data =
     min ((if dict_get (autopilot_available vehicle_data) False then 3 else 0)
          + (if dict_get (ota_updates vehicle_data) False then 2 else 0)
          + (if dict_get (heat_pump vehicle_data) False then 2 else 0)
          + (if dict_get (v2l_capable vehicle_data) False then 2 else 0)
          + (if dict_get (v2h_capable vehicle_data) False then 1 else 0)) 10"

definition total_score :: "vehicle \<Rightarrow> UserPreferences \<Rightarrow> real" where
  "total_score vehicle_data preferences =
     range_score vehicle_data preferences * real_of_int (range_priority preferences)
     + charging_score vehicle_data * real_of_int (charging_speed_priority preferences)
     + eff_score vehicle_data * real_of_int (efficiency_priority preferences)
     + accel_score vehicle_data * real_of_int (acceleration_priority preferences)
     + safety_score vehicle_data * real_of_int (safety_priority preferences)
     + reliability_score_x2 vehicle_data * real_of_int (reliability_priority preferences)
     + cargo_score vehicle_data preferences * real_of_int (cargo_priority preferences)
     + tech_score vehicle_data * real_of_int (tech_features_priority preferences)"

definition max_possible :: "UserPreferences \<Rightarrow> real" where
  "max_possible preferences =
     real_of_int (range_priority preferences * 10
       + charging_speed_priority preferences * 10
       + efficiency_priority preferences * 10
       + acceleration_priority preferences * 10
       + safety_priority preferences * 10
       + reliability_priority preferences * 10
       + cargo_priority preferences * 10
       + tech_features_priority preferences * 10)"

definition brand_bonus_of :: "vehicle \<Rightarrow> UserPreferences \<Rightarrow> real" where
  "brand_bonus_of vehicle_data preferences =
     (if preferred_brands preferences \<noteq> []
         \<and> (case brand vehicle_data of
              None \<Rightarrow> False
            | Some b \<Rightarrow> b \<in> set (preferred_brands preferences))
      then 5 else 0)"

definition score_vehicle :: "vehicle \<Rightarrow> UserPreferences \<Rightarrow> ScoreResult" where
  "score_vehicle vehicle_data preferences =
     (let bonus = brand_bonus_of vehicle_data preferences;
          fs = (if max_possible preferences > 0
                then (total_score vehicle_data preferences / max_possible preferences) * 100
                else 0);
          fs = min (fs + bonus) 100
      in \<lparr> final_score = py_round1 fs,
           category_scores =
             [ (''Range'', range_score vehicle_data preferences),
               (''Charging'', charging_score vehicle_data),
               (''Efficiency'', eff_score vehicle_data),
               (''Performance'', accel_score vehicle_data),
               (''Safety'', safety_score vehicle_data),
               (''Reliability'', reliability_score_x2 vehicle_data),
               (''Cargo'', cargo_score vehicle_data preferences),
               (''Tech'', tech_score vehicle_data) ],
           brand_bonus = bonus \<rparr>)"

text \<open>
  The ranges the data model gives the inputs of the scoring engine: a priority weight
  is an integer from 1 to 5, and the safety and reliability ratings are on a scale
  from 0 to 5. The predicates below keep only the lower ends, which is all the score
  bounds need; absent ratings take the defaults of \<^verbatim>\<open>score_vehicle\<close>.
\<close>

definition priorities_nonneg :: "UserPreferences \<Rightarrow> bool" where
  "priorities_nonneg preferences =
     (0 \<le> range_priority preferences \<and> 0 \<le> charging_speed_priority preferences
      \<and> 0 \<le> efficiency_priority preferences \<and> 0 \<le> acceleration_priority preferences
      \<and> 0 \<le> safety_priority preferences \<and> 0 \<le> reliability_priority preferences
      \<and> 0 \<le> cargo_priority preferences \<and> 0 \<le> tech_features_priority preferences)"

definition ratings_nonneg :: "vehicle \<Rightarrow> bool" where
  "ratings_nonneg vehicle_data =
     (0 \<le> dict_get (safety_rating_ncap vehicle_data) 5
      \<and> 0 \<le> dict_get (reliability_score vehicle_data) 4)"

subsection \<open>Preference filter\<close>

text \<open>
  The body of the loop in \<^verbatim>\<open>filter_vehicles\<close>: \<open>True\<close> when one of the
  \<^verbatim>\<open>continue\<close> statements is reached, tested in the source's order.
  \<^verbatim>\<open>v.get("vehicle_type")\<close> and \<^verbatim>\<open>v.get("brand")\<close> have no default: an absent key
  reads \<^verbatim>\<open>None\<close>, which is in no list of strings.
\<close>

definition skipped :: "vehicle \<Rightarrow> UserPreferences \<Rightarrow> bool" where
  "skipped v preferences =
     (let vehicle_type_values = map VehicleType_value (vehicle_types preferences)
      in if dict_get (base_price v) 0 > max_budget preferences * (11 / 10) then True
         else if dict_get (base_price v) 0 < min_budget preferences then True
         else if (case vehicle_type v of
                    None \<Rightarrow> True
                  | Some t \<Rightarrow> t \<notin> set vehicle_type_values) then True
         else if dict_get (seats v) 5 < real_of_int (min_seats preferences) then True
         else if needs_awd preferences \<and> \<not> dict_get (awd v) False then True
         else if needs_towing preferences
                 \<and> dict_get (towing_capacity_kg v) 0 < real_of_int (min_towing_kg preferences)
              then True
         else if (case brand v of
                    None \<Rightarrow> False
                  | Some b \<Rightarrow> b \<in> set (excluded_brands preferences)) then True
         else False)"

text \<open>The \<^verbatim>\<open>for\<close> loop, with the list \<^verbatim>\<open>filtered\<close> as accumulator.\<close>

fun filter_loop :: "vehicle list \<Rightarrow> UserPreferences \<Rightarrow> vehicle list \<Rightarrow> vehicle list" where
  "filter_loop [] preferences filtered = filtered"
| "filter_loop (v # vehicles) preferences filtered =
     (if skipped v preferences then filter_loop vehicles preferences filtered
      else filter_loop vehicles preferences (filtered @ [v]))"

definition filter_vehicles :: "vehicle list \<Rightarrow> UserPreferences \<Rightarrow> vehicle list" where
  "filter_vehicles vehicles preferences = filter_loop vehicles preferences []"

text \<open>
  Where \<^verbatim>\<open>main\<close> builds the preferences, an empty selection is replaced by one type:
  \<^verbatim>\<open>[VehicleType(vt) for vt in vehicle_types] if vehicle_types else [VehicleType.SEDAN]\<close>.
\<close>

definition main_vehicle_types :: "VehicleType list \<Rightarrow> VehicleType list" where
  "main_vehicle_types selected = (if selected \<noteq> [] then selected else [SEDAN])"

subsection \<open>Powertrain advisor\<close>

text \<open>The four accumulators of \<^verbatim>\<open>recommend_powertrain\<close>.\<close>

record advisor_scores =
  ev_score :: int
  phev_score :: int
  reasons_ev :: "string list"
  reasons_phev :: "string list"

text \<open>The returned dict: the accumulators and the verdict.\<close>

record advisor_result = advisor_scores +
  recommendation :: string
  confidence :: string
  ev_percentage :: real
  phev_percentage :: real

text \<open>One function for each rule block; each takes the accumulators and returns them updated.\<close>

definition commute_rule :: "UserPreferences \<Rightarrow> advisor_scores \<Rightarrow> advisor_scores" where
  "commute_rule preferences s =
     (if daily_commute_km preferences \<le> 50 then
        s\<lparr> ev_score := ev_score s + 3, phev_score := phev_score s + 2,
           reasons_ev := reasons_ev s @ [''Short commute easily covered by EV''] \<rparr>
      else if daily_commute_km preferences \<le> 100 then
        s\<lparr> ev_score := ev_score s + 2, phev_score := phev_score s + 2 \<rparr>
      else
        s\<lparr> phev_score := phev_score s + 3,
           reasons_phev := reasons_phev s @ [''Long commute benefits from PHEV flexibility''] \<rparr>)"

definition long_trips_rule :: "UserPreferences \<Rightarrow> advisor_scores \<Rightarrow> advisor_scores" where
  "long_trips_rule preferences s =
     (if long_trips_frequency preferences = ''never'' then
        s\<lparr> ev_score := ev_score s + 3,
           reasons_ev := reasons_ev s @ [''No long trips needed''] \<rparr>
      else if long_trips_frequency preferences = ''rarely'' then
        s\<lparr> ev_score := ev_score s + 2, phev_score := phev_score s + 2 \<rparr>
      else if long_trips_frequency preferences = ''monthly'' then
        s\<lparr> phev_score := phev_score s + 3,
           reasons_phev := reasons_phev s @ [''Regular long trips easier with PHEV''] \<rparr>
      else
        s\<lparr> phev_score := phev_score s + 4,
           reasons_phev := reasons_phev s @ [''Frequent long trips - PHEV recommended''] \<rparr>)"

definition home_charging_rule :: "UserPreferences \<Rightarrow> advisor_scores \<Rightarrow> advisor_scores" where
  "home_charging_rule preferences s =
     (if home_charging_available preferences then
        (if home_charging_type preferences = ''level2'' then
           s\<lparr> ev_score := ev_score s + 4,
              reasons_ev := reasons_ev s @ [''Level 2 home charging available''] \<rparr>
         else
           s\<lparr> ev_score := ev_score s + 2, phev_score := phev_score s + 1 \<rparr>)
      else
        s\<lparr> phev_score := phev_score s + 4,
           reasons_phev := reasons_phev s @ [''No home charging - PHEV more flexible''] \<rparr>)"

definition work_charging_rule :: "UserPreferences \<Rightarrow> advisor_scores \<Rightarrow> advisor_scores" where
  "work_charging_rule preferences s =
     (if work_charging_available preferences then
        s\<lparr> ev_score := ev_score s + 2,
           reasons_ev := reasons_ev s @ [''Work charging available''] \<rparr>
      else s)"

definition zero_emissions_rule :: "UserPreferences \<Rightarrow> advisor_scores \<Rightarrow> advisor_scores" where
  "zero_emissions_rule preferences s =
     (if zero_emissions_priority preferences \<ge> 4 then
        s\<lparr> ev_score := ev_score s + 3,
           reasons_ev := reasons_ev s @ [''Strong preference for zero emissions''] \<rparr>
      else if zero_emissions_priority preferences \<le> 2 then
        s\<lparr> phev_score := phev_score s + 2 \<rparr>
      else s)"

definition advisor_rules :: "UserPreferences \<Rightarrow> advisor_scores" where
  "advisor_rules preferences =
     zero_emissions_rule preferences
       (work_charging_rule preferences
         (home_charging_rule preferences
           (long_trips_rule preferences
             (commute_rule preferences
               \<lparr> ev_score = 0, phev_score = 0, reasons_ev = [], reasons_phev = [] \<rparr>))))"

definition recommend_powertrain :: "UserPreferences \<Rightarrow> advisor_result" where
  "recommend_powertrain preferences =
     (let s = advisor_rules preferences;
          e = ev_score s;
          ph = phev_score s;
          total = e + ph;
          ev_pct = (if total > 0
                    then py_round1 ((real_of_int e / real_of_int total) * 100) else 50);
          phev_pct = (if total > 0
                      then py_round1 ((real_of_int ph / real_of_int total) * 100) else 50);
          verdict =
            (if e > ph + 3 then (''EV'', ''High'')
             else if ph > e + 3 then (''PHEV'', ''High'')
             else if e > ph then (''EV'', ''Medium'')
             else if ph > e then (''PHEV'', ''Medium'')
             else (''Either'', ''Low''))
      in \<lparr> ev_score = e, phev_score = ph,
           reasons_ev = reasons_ev s, reasons_phev = reasons_phev s,
           recommendation = fst verdict, confidence = snd verdict,
           ev_percentage = ev_pct, phev_percentage = phev_pct \<rparr>)"

section \<open>Properties of the incentive calculator\<close>

lemma incentive_rows_nonneg:
  "map_of get_incentives_data rgn = Some row \<Longrightarrow> 0 \<le> ev row \<and> 0 \<le> phev row"
  by (drule map_of_SomeD) (auto simp: get_incentives_data_def)

lemma region_data_nonneg:
  "0 \<le> ev (case map_of get_incentives_data rgn of
             None \<Rightarrow> \<lparr>ev = 0, phev = 0\<rparr> | Some row \<Rightarrow> row)
   \<and> 0 \<le> phev (case map_of get_incentives_data rgn of
                 None \<Rightarrow> \<lparr>ev = 0, phev = 0\<rparr> | Some row \<Rightarrow> row)"
  using incentive_rows_nonneg [of rgn] by (cases "map_of get_incentives_data rgn") auto

text \<open>
  Claim C4. For every vehicle record, whichever optional keys it lacks, and every region
  string, known or not, \<^verbatim>\<open>calculate_incentive\<close> returns a non-negative amount. The
  function has no raising statement: it is total on these inputs. A record without the
  manufacturing-origin flag is treated exactly as one whose flag is false, the
  conservative branch: in a region whose code starts with \<^verbatim>\<open>usa\<close> it receives half of
  what the same record with the flag set receives, elsewhere the flag is not read.
\<close>

theorem calculate_incentive_nonneg_conservative:
  "0 \<le> calculate_incentive v rgn
   \<and> calculate_incentive (v\<lparr>made_in_north_america := None\<rparr>) rgn
       = calculate_incentive (v\<lparr>made_in_north_america := Some False\<rparr>) rgn
   \<and> calculate_incentive (v\<lparr>made_in_north_america := None\<rparr>) rgn
       = (if startswith rgn ''usa''
          then calculate_incentive (v\<lparr>made_in_north_america := Some True\<rparr>) rgn * (5 / 10)
          else calculate_incentive (v\<lparr>made_in_north_america := Some True\<rparr>) rgn)"
  using region_data_nonneg [of rgn]
  by (simp add: calculate_incentive_def Let_def dict_get_def)

text \<open>
  Claim C5. In a region of the federal family (a code that starts with \<^verbatim>\<open>usa\<close>), a
  sedan or hatchback priced above 55000 receives exactly 0, and a vehicle of any other
  body type priced above 80000 receives exactly 0. Outside that family the price and the
  body type are not read: the result is the table amount of the region for the
  vehicle's powertrain.
\<close>

theorem calculate_incentive_price_cap:
  "(startswith rgn ''usa''
      \<and> dict_get (vehicle_type v) ''sedan'' \<in> {''sedan'', ''hatchback''}
      \<and> 55000 < dict_get (base_price v) 0 \<longrightarrow> calculate_incentive v rgn = 0)
   \<and> (startswith rgn ''usa''
      \<and> dict_get (vehicle_type v) ''sedan'' \<notin> {''sedan'', ''hatchback''}
      \<and> 80000 < dict_get (base_price v) 0 \<longrightarrow> calculate_incentive v rgn = 0)
   \<and> (\<not> startswith rgn ''usa'' \<longrightarrow>
        calculate_incentive v rgn
          = (let row = (case map_of get_incentives_data rgn of
                          None \<Rightarrow> \<lparr>ev = 0, phev = 0\<rparr> | Some r \<Rightarrow> r)
             in if dict_get (powertrain v) ''EV'' = ''EV'' then ev row else phev row))"
  by (simp add: calculate_incentive_def Let_def)

theorem calculate_incentive_price_cap_witness:
  "calculate_incentive (tesla_model_3_sr\<lparr>base_price := Some 60000\<rparr>) ''usa_federal'' = 0
   \<and> calculate_incentive
         (tesla_model_3_sr\<lparr>vehicle_type := Some ''suv'', base_price := Some 90000\<rparr>)
         ''usa_california'' = 0
   \<and> calculate_incentive (tesla_model_3_sr\<lparr>base_price := Some 60000\<rparr>) ''germany'' = 4500"
  using calculate_incentive_price_cap
          [of "''usa_federal''" "tesla_model_3_sr\<lparr>base_price := Some 60000\<rparr>"]
        calculate_incentive_price_cap
          [of "''usa_california''"
              "tesla_model_3_sr\<lparr>vehicle_type := Some ''suv'', base_price := Some 90000\<rparr>"]
        calculate_incentive_price_cap
          [of "''germany''" "tesla_model_3_sr\<lparr>base_price := Some 60000\<rparr>"]
  by (simp add: tesla_model_3_sr_def startswith_def dict_get_def get_incentives_data_def)

section \<open>Properties of the TCO calculator\<close>

lemma calculate_tco_zero_years:
  "ownership_years p = 0 \<Longrightarrow> calculate_tco v p = Inl ZeroDivisionError"
  by (simp add: calculate_tco_def Let_def py_div_def)

lemma calculate_tco_returns:
  assumes "ownership_years p \<noteq> 0"
  shows "\<exists>r. calculate_tco v p = Inr r
    \<and> incentives_total r = tco_incentive v p
    \<and> purchase_price r = tco_purchase_price v
    \<and> annual_fuel_cost r = tco_annual_fuel_cost v p
    \<and> annual_insurance_cost r = tco_annual_insurance v p
    \<and> cost_per_km r = (if annual_km p > 0
         then tco_total_tco v p / (annual_km p * real_of_int (ownership_years p)) else 0)
    \<and> cost_per_year r = tco_total_tco v p / real_of_int (ownership_years p)"
  using assms by (auto simp: calculate_tco_def Let_def py_div_def)

text \<open>
  Claim C2. The claim is that \<^verbatim>\<open>calculate_tco\<close> never raises, for all values of the
  preference fields, \<^verbatim>\<open>ownership_years\<close> included, and that an annual distance of 0
  gives a \<^verbatim>\<open>cost_per_km\<close> of 0. The code guards \<^verbatim>\<open>cost_per_km\<close> with
  \<^verbatim>\<open>annual_km > 0\<close> only, although its divisor is \<^verbatim>\<open>annual_km * years\<close>, and divides by
  \<^verbatim>\<open>years\<close> unguarded for \<^verbatim>\<open>cost_per_year\<close>. With \<^verbatim>\<open>ownership_years = 0\<close> the call
  raises \<^verbatim>\<open>ZeroDivisionError\<close>, with the default annual distance and with annual
  distance 0 alike.
\<close>

theorem calculate_tco_raises_at_zero_years:
  "calculate_tco tesla_model_3_sr (default_preferences\<lparr>ownership_years := 0\<rparr>)
     = Inl ZeroDivisionError
   \<and> calculate_tco tesla_model_3_sr
         (default_preferences\<lparr>annual_km := 0, ownership_years := 0\<rparr>)
     = Inl ZeroDivisionError"
  by (simp add: calculate_tco_def Let_def py_div_def default_preferences_def)




text \<open>The scaling loop, for a number below \<open>2 ^ 52\<close>: it stops after \<open>k\<close> doublings.\<close>

lemma f64_normalise_up:
  assumes "0 < m" and "2 ^ 52 \<le> m * 2 ^ k" and "m * 2 ^ k < 2 ^ 53" and "k \<le> fuel"
  shows "f64_normalise fuel m s = (m * 2 ^ k, s / 2 ^ k)"
  using assms
proof (induction k arbitrary: m s fuel)
  case 0
  then show ?case by (cases fuel) simp_all
next
  case (Suc k)
  from Suc.prems(4) obtain fuel' where fuel: "fuel = Suc fuel'" and k: "k \<le> fuel'"
    by (cases fuel) simp_all
  have "m * 2 \<le> m * 2 ^ Suc k"
    using Suc.prems(1) by (simp add: self_le_power)
  with Suc.prems(3) have m: "m < 2 ^ 52"
    by simp
  have "f64_normalise fuel' (m * 2) (s / 2) = (m * 2 * 2 ^ k, s / 2 / 2 ^ k)"
    using Suc.prems(1,2,3) k by (intro Suc.IH) (simp_all add: mult.assoc)
  with m fuel show ?case
    by (simp add: mult.assoc)
qed

lemma f64_eval:
  assumes "0 < x" and "2 ^ 52 \<le> x * 2 ^ k" and "x * 2 ^ k < 2 ^ 53" and "k \<le> 2200"
  shows "f64 x = real_of_int (round_half_even (x * 2 ^ k)) / 2 ^ k"
  using assms(1) f64_normalise_up [OF assms, of 1]
  by (simp add: f64_def)

text \<open>The doubles of the scenario: 13.7, 13.7 / 100, 20000, the annual kWh, 0.15, the cost.\<close>

lemma f64_kwh: "f64 (137 / 10) = 7712414361871974 / 2 ^ 49"
  by (subst f64_eval [where k = 49]) (simp_all add: round_half_even_def Let_def)

lemma f64_kwh_per_km: "f64 (7712414361871974 / 2 ^ 49 / 100) = 4935945191598063 / 2 ^ 55"
  by (subst f64_eval [where k = 55]) (simp_all add: round_half_even_def Let_def)

lemma f64_annual_km: "f64 20000 = 20000"
  by (subst f64_eval [where k = 38]) (simp_all add: round_half_even_def Let_def)

lemma f64_annual_kwh: "f64 (4935945191598063 / 2 ^ 55 * 20000) = 6025323720212479 / 2 ^ 41"
  by (subst f64_eval [where k = 41]) (simp_all add: round_half_even_def Let_def)

lemma f64_electricity_cost: "f64 (15 / 100) = 5404319552844595 / 2 ^ 55"
  by (subst f64_eval [where k = 55]) (simp_all add: round_half_even_def Let_def)

lemma f64_annual_cost:
  "f64 (6025323720212479 / 2 ^ 41 * (5404319552844595 / 2 ^ 55)) = 411 - 1 / 2 ^ 44"
  by (subst f64_eval [where k = 44]) (simp_all add: round_half_even_def Let_def)

lemma ev_fuel_cost_scenario:
  assumes "dict_get (powertrain v) ''EV'' = ''EV''"
      and "kwh_per_100km v = Some (137 / 10)"
      and "annual_km p = 20000"
      and "electricity_cost_kwh p = 15 / 100"
  shows "tco_annual_fuel_cost v p = 411 - 1 / 2 ^ 44"
proof -
  have "tco_annual_fuel_cost v p
          = f64 (f64 (f64 (f64 (dict_get (kwh_per_100km v) 18) / 100) * f64 (annual_km p))
              * f64 (electricity_cost_kwh p))"
    using assms(1)
    by (simp add: tco_annual_fuel_cost_def Let_def f64_mul_def f64_div_def)
  also have "\<dots> = f64 (f64 (f64 (f64 (137 / 10) / 100) * f64 20000) * f64 (15 / 100))"
    by (simp only: assms(2-4) dict_get_def option.case)
  also have "\<dots> = 411 - 1 / 2 ^ 44"
    by (simp only: f64_kwh f64_kwh_per_km f64_annual_km f64_annual_kwh
        f64_electricity_cost f64_annual_cost)
  finally show ?thesis .
qed

text \<open>
  Claim C9, as amended. For an EV record (powertrain \<^verbatim>\<open>"EV"\<close>, or none) with base price
  40240, consumption 13.7 and the manufacturing-origin flag set, and preferences with
  region \<^verbatim>\<open>usa_california\<close>, annual distance 20000, electricity cost 0.15 and a
  non-zero ownership horizon, \<^verbatim>\<open>calculate_tco\<close> returns a result whose annual energy
  cost is 411 only up to the rounding of the double arithmetic: it is
  \<open>411 - 2 ^ -44\<close>, printed 410.99999999999994, less than \<open>10 ^ -13\<close> away from 411.
  The incentive is exactly 9500, the California amount for an EV: the price is under
  the cap of its body type, whichever that is, and the origin flag prevents the halving.
\<close>

theorem california_ev_scenario:
  assumes "dict_get (powertrain v) ''EV'' = ''EV''"
      and "base_price v = Some 40240"
      and "kwh_per_100km v = Some (137 / 10)"
      and "made_in_north_america v = Some True"
      and "region p = USA_CALIFORNIA"
      and "annual_km p = 20000"
      and "electricity_cost_kwh p = 15 / 100"
      and "ownership_years p \<noteq> 0"
  shows "\<exists>r. calculate_tco v p = Inr r
           \<and> annual_fuel_cost r = 411 - 1 / 2 ^ 44
           \<and> \<bar>annual_fuel_cost r - 411\<bar> < 1 / 10 ^ 13
           \<and> incentives_total r = 9500"
proof -
  have f: "tco_annual_fuel_cost v p = 411 - 1 / 2 ^ 44"
    using assms(1,3,6,7) by (rule ev_fuel_cost_scenario)
  have i: "tco_incentive v p = 9500"
    using assms(1,2,4,5)
    by (simp add: tco_incentive_def calculate_incentive_def Let_def dict_get_def
        startswith_def get_incentives_data_def)
  show ?thesis
    using calculate_tco_returns [OF assms(8), of v] f i by auto
qed

theorem california_ev_scenario_witness:
  "\<exists>r. calculate_tco tesla_model_3_sr (default_preferences\<lparr>region := USA_CALIFORNIA\<rparr>) = Inr r
     \<and> annual_fuel_cost r = 411 - 1 / 2 ^ 44
     \<and> \<bar>annual_fuel_cost r - 411\<bar> < 1 / 10 ^ 13
     \<and> incentives_total r = 9500"
  using california_ev_scenario
          [of tesla_model_3_sr "default_preferences\<lparr>region := USA_CALIFORNIA\<rparr>"]
  by (simp add: tesla_model_3_sr_def default_preferences_def dict_get_def)

text \<open>
  Claim C9 as stated fails: for the first catalog entry and the default preferences
  with region \<^verbatim>\<open>usa_california\<close>, the annual energy cost that \<^verbatim>\<open>calculate_tco\<close>
  returns is not equal to 411.
\<close>

theorem california_ev_energy_cost_not_411:
  "\<not> (\<exists>r. calculate_tco tesla_model_3_sr (default_preferences\<lparr>region := USA_CALIFORNIA\<rparr>)
             = Inr r
           \<and> annual_fuel_cost r = 411)"
proof
  assume "\<exists>r. calculate_tco tesla_model_3_sr (default_preferences\<lparr>region := USA_CALIFORNIA\<rparr>)
             = Inr r
           \<and> annual_fuel_cost r = 411"
  then obtain r where r:
      "calculate_tco tesla_model_3_sr (default_preferences\<lparr>region := USA_CALIFORNIA\<rparr>) = Inr r"
      "annual_fuel_cost r = 411"
    by blast
  have y: "ownership_years (default_preferences\<lparr>region := USA_CALIFORNIA\<rparr>) \<noteq> 0"
    by (simp add: default_preferences_def)
  have "tco_annual_fuel_cost tesla_model_3_sr (default_preferences\<lparr>region := USA_CALIFORNIA\<rparr>)
          = 411 - 1 / 2 ^ 44"
    by (rule ev_fuel_cost_scenario)
      (simp_all add: tesla_model_3_sr_def default_preferences_def dict_get_def)
  with calculate_tco_returns [OF y, of tesla_model_3_sr] r(1)
  have "annual_fuel_cost r = 411 - 1 / 2 ^ 44"
    by auto
  with r(2) show False
    by simp
qed

section \<open>Properties of the powertrain advisor\<close>

text \<open>
  Claim C8. For preferences with daily commute 75 km, long-trip frequency
  \<^verbatim>\<open>rarely\<close>, level-2 home charging, no work charging and zero-emissions priority 3,
  whatever the other fields, \<^verbatim>\<open>recommend_powertrain\<close> gives EV score 8 and PHEV score
  4, and recommends \<^verbatim>\<open>EV\<close> with confidence \<^verbatim>\<open>High\<close>.
\<close>

theorem recommend_powertrain_tie_case:
  "ev_score (recommend_powertrain
      (p\<lparr>daily_commute_km := 75, long_trips_frequency := ''rarely'',
         home_charging_available := True, home_charging_type := ''level2'',
         work_charging_available := False, zero_emissions_priority := 3\<rparr>)) = 8
   \<and> phev_score (recommend_powertrain
      (p\<lparr>daily_commute_km := 75, long_trips_frequency := ''rarely'',
         home_charging_available := True, home_charging_type := ''level2'',
         work_charging_available := False, zero_emissions_priority := 3\<rparr>)) = 4
   \<and> recommendation (recommend_powertrain
      (p\<lparr>daily_commute_km := 75, long_trips_frequency := ''rarely'',
         home_charging_available := True, home_charging_type := ''level2'',
         work_charging_available := False, zero_emissions_priority := 3\<rparr>)) = ''EV''
   \<and> confidence (recommend_powertrain
      (p\<lparr>daily_commute_km := 75, long_trips_frequency := ''rarely'',
         home_charging_available := True, home_charging_type := ''level2'',
         work_charging_available := False, zero_emissions_priority := 3\<rparr>)) = ''High''"
  by (simp add: recommend_powertrain_def advisor_rules_def commute_rule_def
      long_trips_rule_def home_charging_rule_def work_charging_rule_def
      zero_emissions_rule_def Let_def)

lemma commute_rule_total:
  "ev_score s + phev_score s + 3
     \<le> ev_score (commute_rule p s) + phev_score (commute_rule p s)"
  by (simp add: commute_rule_def)

lemma long_trips_rule_total:
  "ev_score s + phev_score s + 3
     \<le> ev_score (long_trips_rule p s) + phev_score (long_trips_rule p s)"
  by (simp add: long_trips_rule_def)

lemma home_charging_rule_total:
  "ev_score s + phev_score s + 3
     \<le> ev_score (home_charging_rule p s) + phev_score (home_charging_rule p s)"
  by (simp add: home_charging_rule_def)

lemma work_charging_rule_total:
  "ev_score s + phev_score s
     \<le> ev_score (work_charging_rule p s) + phev_score (work_charging_rule p s)"
  by (simp add: work_charging_rule_def)

lemma zero_emissions_rule_total:
  "ev_score s + phev_score s
     \<le> ev_score (zero_emissions_rule p s) + phev_score (zero_emissions_rule p s)"
  by (simp add: zero_emissions_rule_def)

text \<open>
  The commute, long-trip and home-charging rules each add at least 3 points to the
  two scores together, so the total is at least 9.
\<close>

lemma advisor_rules_total: "9 \<le> ev_score (advisor_rules p) + phev_score (advisor_rules p)"
proof -
  define s0 :: advisor_scores
    where "s0 = \<lparr> ev_score = 0, phev_score = 0, reasons_ev = [], reasons_phev = [] \<rparr>"
  define s1 where "s1 = commute_rule p s0"
  define s2 where "s2 = long_trips_rule p s1"
  define s3 where "s3 = home_charging_rule p s2"
  define s4 where "s4 = work_charging_rule p s3"
  have a: "advisor_rules p = zero_emissions_rule p s4"
    by (simp only: advisor_rules_def s0_def s1_def s2_def s3_def s4_def)
  have "ev_score s0 + phev_score s0 = 0"
    by (simp add: s0_def)
  moreover note commute_rule_total [of s0 p] long_trips_rule_total [of s1 p]
    home_charging_rule_total [of s2 p] work_charging_rule_total [of s3 p]
    zero_emissions_rule_total [of s4 p]
  ultimately show ?thesis
    unfolding a s1_def [symmetric] s2_def [symmetric] s3_def [symmetric] s4_def [symmetric]
    by linarith
qed

lemma home_charging_rule_awards:
  "(home_charging_available p \<and> home_charging_type p = ''level2'' \<longrightarrow>
      ev_score (home_charging_rule p s) = ev_score s + 4
      \<and> phev_score (home_charging_rule p s) = phev_score s)
   \<and> (home_charging_available p \<and> home_charging_type p \<noteq> ''level2'' \<longrightarrow>
      ev_score (home_charging_rule p s) = ev_score s + 2
      \<and> phev_score (home_charging_rule p s) = phev_score s + 1)
   \<and> (\<not> home_charging_available p \<longrightarrow>
      ev_score (home_charging_rule p s) = ev_score s
      \<and> phev_score (home_charging_rule p s) = phev_score s + 4)"
  by (simp add: home_charging_rule_def)

text \<open>
  Claim C10. For every preferences value the home-charging rule of
  \<^verbatim>\<open>recommend_powertrain\<close> awards points on some side: EV +4 for level-2 charging at
  home, EV +2 and PHEV +1 for any other home charging (level-1), PHEV +4 without home
  charging. The returned scores are those of the five rules applied in the source's
  order to scores of 0, the home-charging rule third. They add up to at least 9, hence
  to at least 4, so the total is never 0, the 50/50 branch of the percentage computation
  is never taken, and both percentages are the rounded shares of the actual scores.
\<close>

theorem recommend_powertrain_total_positive:
  "(home_charging_available p \<and> home_charging_type p = ''level2'' \<longrightarrow>
      ev_score (home_charging_rule p s) = ev_score s + 4
      \<and> phev_score (home_charging_rule p s) = phev_score s)
   \<and> (home_charging_available p \<and> home_charging_type p \<noteq> ''level2'' \<longrightarrow>
      ev_score (home_charging_rule p s) = ev_score s + 2
      \<and> phev_score (home_charging_rule p s) = phev_score s + 1)
   \<and> (\<not> home_charging_available p \<longrightarrow>
      ev_score (home_charging_rule p s) = ev_score s
      \<and> phev_score (home_charging_rule p s) = phev_score s + 4)
   \<and> ev_score (recommend_powertrain p)
       = ev_score (zero_emissions_rule p (work_charging_rule p (home_charging_rule p
           (long_trips_rule p (commute_rule p
             \<lparr> ev_score = 0, phev_score = 0, reasons_ev = [], reasons_phev = [] \<rparr>)))))
   \<and> phev_score (recommend_powertrain p)
       = phev_score (zero_emissions_rule p (work_charging_rule p (home_charging_rule p
           (long_trips_rule p (commute_rule p
             \<lparr> ev_score = 0, phev_score = 0, reasons_ev = [], reasons_phev = [] \<rparr>)))))
   \<and> 9 \<le> ev_score (recommend_powertrain p) + phev_score (recommend_powertrain p)
   \<and> 4 \<le> ev_score (recommend_powertrain p) + phev_score (recommend_powertrain p)
   \<and> ev_score (recommend_powertrain p) + phev_score (recommend_powertrain p) \<noteq> 0
   \<and> ev_percentage (recommend_powertrain p)
       = py_round1 (real_of_int (ev_score (recommend_powertrain p))
           / real_of_int (ev_score (recommend_powertrain p)
               + phev_score (recommend_powertrain p)) * 100)
   \<and> phev_percentage (recommend_powertrain p)
       = py_round1 (real_of_int (phev_score (recommend_powertrain p))
           / real_of_int (ev_score (recommend_powertrain p)
               + phev_score (recommend_powertrain p)) * 100)"
proof -
  have scores: "ev_score (recommend_powertrain p) = ev_score (advisor_rules p)"
      "phev_score (recommend_powertrain p) = phev_score (advisor_rules p)"
    by (simp_all add: recommend_powertrain_def Let_def)
  have total: "9 \<le> ev_score (recommend_powertrain p) + phev_score (recommend_powertrain p)"
    using advisor_rules_total [of p] by (simp only: scores)
  have pct: "ev_percentage (recommend_powertrain p)
       = py_round1 (real_of_int (ev_score (recommend_powertrain p))
           / real_of_int (ev_score (recommend_powertrain p)
               + phev_score (recommend_powertrain p)) * 100)
     \<and> phev_percentage (recommend_powertrain p)
       = py_round1 (real_of_int (phev_score (recommend_powertrain p))
           / real_of_int (ev_score (recommend_powertrain p)
               + phev_score (recommend_powertrain p)) * 100)"
    using advisor_rules_total [of p] by (simp add: recommend_powertrain_def Let_def)
  have chain: "ev_score (recommend_powertrain p)
       = ev_score (zero_emissions_rule p (work_charging_rule p (home_charging_rule p
           (long_trips_rule p (commute_rule p
             \<lparr> ev_score = 0, phev_score = 0, reasons_ev = [], reasons_phev = [] \<rparr>)))))
     \<and> phev_score (recommend_powertrain p)
       = phev_score (zero_emissions_rule p (work_charging_rule p (home_charging_rule p
           (long_trips_rule p (commute_rule p
             \<lparr> ev_score = 0, phev_score = 0, reasons_ev = [], reasons_phev = [] \<rparr>)))))"
    by (simp only: scores advisor_rules_def)
  from total have "4 \<le> ev_score (recommend_powertrain p) + phev_score (recommend_powertrain p)"
      "ev_score (recommend_powertrain p) + phev_score (recommend_powertrain p) \<noteq> 0"
    by linarith+
  with home_charging_rule_awards [of p s] chain total pct show ?thesis
    by blast
qed

theorem recommend_powertrain_total_positive_witness:
  "ev_score (home_charging_rule default_preferences
      \<lparr> ev_score = 0, phev_score = 0, reasons_ev = [], reasons_phev = [] \<rparr>) = 4
   \<and> phev_score (home_charging_rule default_preferences
      \<lparr> ev_score = 0, phev_score = 0, reasons_ev = [], reasons_phev = [] \<rparr>) = 0
   \<and> ev_score (home_charging_rule (default_preferences\<lparr>home_charging_type := ''level1''\<rparr>)
      \<lparr> ev_score = 0, phev_score = 0, reasons_ev = [], reasons_phev = [] \<rparr>) = 2
   \<and> phev_score (home_charging_rule (default_preferences\<lparr>home_charging_type := ''level1''\<rparr>)
      \<lparr> ev_score = 0, phev_score = 0, reasons_ev = [], reasons_phev = [] \<rparr>) = 1
   \<and> ev_score (home_charging_rule (default_preferences\<lparr>home_charging_available := False\<rparr>)
      \<lparr> ev_score = 0, phev_score = 0, reasons_ev = [], reasons_phev = [] \<rparr>) = 0
   \<and> phev_score (home_charging_rule (default_preferences\<lparr>home_charging_available := False\<rparr>)
      \<lparr> ev_score = 0, phev_score = 0, reasons_ev = [], reasons_phev = [] \<rparr>) = 4"
  using recommend_powertrain_total_positive
          [of default_preferences
              "\<lparr> ev_score = 0, phev_score = 0, reasons_ev = [], reasons_phev = [] \<rparr>"]
        recommend_powertrain_total_positive
          [of "default_preferences\<lparr>home_charging_type := ''level1''\<rparr>"
              "\<lparr> ev_score = 0, phev_score = 0, reasons_ev = [], reasons_phev = [] \<rparr>"]
        recommend_powertrain_total_positive
          [of "default_preferences\<lparr>home_charging_available := False\<rparr>"
              "\<lparr> ev_score = 0, phev_score = 0, reasons_ev = [], reasons_phev = [] \<rparr>"]
  by (simp add: default_preferences_def)

section \<open>Properties of the preference filter\<close>

text \<open>The loop is a filter: it keeps, in order, the vehicles no rule skips.\<close>

lemma filter_loop_eq:
  "filter_loop vs p acc = acc @ filter (\<lambda>v. \<not> skipped v p) vs"
  by (induction vs arbitrary: acc) simp_all

lemma filter_vehicles_eq: "filter_vehicles vs p = filter (\<lambda>v. \<not> skipped v p) vs"
  by (simp add: filter_vehicles_def filter_loop_eq)

lemma not_skipped:
  assumes "\<not> skipped v p"
  shows "dict_get (base_price v) 0 \<le> max_budget p * (11 / 10)
     \<and> min_budget p \<le> dict_get (base_price v) 0
     \<and> (\<exists>t \<in> set (vehicle_types p). vehicle_type v = Some (VehicleType_value t))
     \<and> real_of_int (min_seats p) \<le> dict_get (seats v) 5
     \<and> (needs_awd p \<longrightarrow> dict_get (awd v) False)
     \<and> (needs_towing p
          \<longrightarrow> real_of_int (min_towing_kg p) \<le> dict_get (towing_capacity_kg v) 0)
     \<and> (\<forall>b. brand v = Some b \<longrightarrow> b \<notin> set (excluded_brands p))"
  using assms
  by (auto simp: skipped_def Let_def split: if_splits option.splits)

lemma skipped_no_types: "vehicle_types p = [] \<Longrightarrow> skipped v p"
  by (simp add: skipped_def Let_def split: option.splits)

lemma main_vehicle_types_nonempty: "main_vehicle_types selected \<noteq> []"
  by (simp add: main_vehicle_types_def)

text \<open>
  Claim C3. For every catalog and every preferences value, \<^verbatim>\<open>filter_vehicles\<close> returns
  a subsequence of the catalog (same order, no entry repeated), and every returned
  vehicle meets all the hard constraints at once: base price at most
  \<^verbatim>\<open>max_budget * 1.1\<close> and at least \<^verbatim>\<open>min_budget\<close>, body type among the requested
  ones, seats at least the minimum, AWD when required, towing capacity at least the
  minimum when towing is required, and brand not excluded. Absent keys read as the
  defaults of the source (price 0, seats 5, no AWD, towing 0).
\<close>

theorem filter_vehicles_subsequence_constraints:
  "subseq (filter_vehicles vs p) vs
   \<and> (\<forall>v \<in> set (filter_vehicles vs p).
        dict_get (base_price v) 0 \<le> max_budget p * (11 / 10)
        \<and> min_budget p \<le> dict_get (base_price v) 0
        \<and> (\<exists>t \<in> set (vehicle_types p). vehicle_type v = Some (VehicleType_value t))
        \<and> real_of_int (min_seats p) \<le> dict_get (seats v) 5
        \<and> (needs_awd p \<longrightarrow> dict_get (awd v) False)
        \<and> (needs_towing p
             \<longrightarrow> real_of_int (min_towing_kg p) \<le> dict_get (towing_capacity_kg v) 0)
        \<and> (\<forall>b. brand v = Some b \<longrightarrow> b \<notin> set (excluded_brands p)))"
proof
  show "subseq (filter_vehicles vs p) vs"
    by (simp add: filter_vehicles_eq)
next
  show "\<forall>v \<in> set (filter_vehicles vs p).
        dict_get (base_price v) 0 \<le> max_budget p * (11 / 10)
        \<and> min_budget p \<le> dict_get (base_price v) 0
        \<and> (\<exists>t \<in> set (vehicle_types p). vehicle_type v = Some (VehicleType_value t))
        \<and> real_of_int (min_seats p) \<le> dict_get (seats v) 5
        \<and> (needs_awd p \<longrightarrow> dict_get (awd v) False)
        \<and> (needs_towing p
             \<longrightarrow> real_of_int (min_towing_kg p) \<le> dict_get (towing_capacity_kg v) 0)
        \<and> (\<forall>b. brand v = Some b \<longrightarrow> b \<notin> set (excluded_brands p))"
  proof
    fix v
    assume "v \<in> set (filter_vehicles vs p)"
    then have "\<not> skipped v p"
      by (simp add: filter_vehicles_eq)
    then show "dict_get (base_price v) 0 \<le> max_budget p * (11 / 10)
        \<and> min_budget p \<le> dict_get (base_price v) 0
        \<and> (\<exists>t \<in> set (vehicle_types p). vehicle_type v = Some (VehicleType_value t))
        \<and> real_of_int (min_seats p) \<le> dict_get (seats v) 5
        \<and> (needs_awd p \<longrightarrow> dict_get (awd v) False)
        \<and> (needs_towing p
             \<longrightarrow> real_of_int (min_towing_kg p) \<le> dict_get (towing_capacity_kg v) 0)
        \<and> (\<forall>b. brand v = Some b \<longrightarrow> b \<notin> set (excluded_brands p))"
      by (rule not_skipped)
  qed
qed

theorem filter_vehicles_subsequence_constraints_witness:
  "filter_vehicles
     [tesla_model_3_sr\<lparr>vehicle_type := Some ''truck''\<rparr>,
      tesla_model_3_sr\<lparr>awd := Some True, towing_capacity_kg := Some 1000\<rparr>,
      tesla_model_3_sr\<lparr>base_price := Some 90000\<rparr>]
     (default_preferences\<lparr>needs_awd := True, needs_towing := True, min_towing_kg := 500,
        excluded_brands := [''BMW'']\<rparr>)
     = [tesla_model_3_sr\<lparr>awd := Some True, towing_capacity_kg := Some 1000\<rparr>]
   \<and> subseq [tesla_model_3_sr\<lparr>awd := Some True, towing_capacity_kg := Some 1000\<rparr>]
        [tesla_model_3_sr\<lparr>vehicle_type := Some ''truck''\<rparr>,
         tesla_model_3_sr\<lparr>awd := Some True, towing_capacity_kg := Some 1000\<rparr>,
         tesla_model_3_sr\<lparr>base_price := Some 90000\<rparr>]
   \<and> dict_get (awd (tesla_model_3_sr\<lparr>awd := Some True, towing_capacity_kg := Some 1000\<rparr>))
        False
   \<and> (500::real) \<le> dict_get (towing_capacity_kg
          (tesla_model_3_sr\<lparr>awd := Some True, towing_capacity_kg := Some 1000\<rparr>)) 0"
proof -
  have e: "filter_vehicles
     [tesla_model_3_sr\<lparr>vehicle_type := Some ''truck''\<rparr>,
      tesla_model_3_sr\<lparr>awd := Some True, towing_capacity_kg := Some 1000\<rparr>,
      tesla_model_3_sr\<lparr>base_price := Some 90000\<rparr>]
     (default_preferences\<lparr>needs_awd := True, needs_towing := True, min_towing_kg := 500,
        excluded_brands := [''BMW'']\<rparr>)
     = [tesla_model_3_sr\<lparr>awd := Some True, towing_capacity_kg := Some 1000\<rparr>]"
    by (simp add: filter_vehicles_def skipped_def Let_def dict_get_def
        tesla_model_3_sr_def default_preferences_def)
  show ?thesis
    using filter_vehicles_subsequence_constraints
      [of "[tesla_model_3_sr\<lparr>vehicle_type := Some ''truck''\<rparr>,
            tesla_model_3_sr\<lparr>awd := Some True, towing_capacity_kg := Some 1000\<rparr>,
            tesla_model_3_sr\<lparr>base_price := Some 90000\<rparr>]"
          "default_preferences\<lparr>needs_awd := True, needs_towing := True,
             min_towing_kg := 500, excluded_brands := [''BMW'']\<rparr>"]
    unfolding e
    by (simp add: default_preferences_def)
qed

text \<open>
  Claim C7, as amended. For every catalog and every preferences value whose list of
  desired body types is empty, \<^verbatim>\<open>filter_vehicles\<close> does not raise and returns the
  empty list: the body-type rule skips every vehicle. The fallback to a single default
  type is applied where \<^verbatim>\<open>main\<close> builds the preferences
  (\<open>main_vehicle_types_nonempty\<close>), not in the filter.
\<close>

theorem filter_vehicles_no_types:
  "vehicle_types p = [] \<Longrightarrow> filter_vehicles vs p = []"
  by (simp add: filter_vehicles_eq skipped_no_types)

theorem filter_vehicles_no_types_witness:
  "filter_vehicles [tesla_model_3_sr, empty_vehicle]
     (default_preferences\<lparr>vehicle_types := []\<rparr>) = []"
  using filter_vehicles_no_types
    [of "default_preferences\<lparr>vehicle_types := []\<rparr>" "[tesla_model_3_sr, empty_vehicle]"]
  by simp

text \<open>
  Claim C7 as stated fails: with an empty list of body types the filter does not
  behave as with the single default type. The first catalog entry, a sedan that meets
  every other rule of the default preferences, is dropped with the empty list and
  kept with the list holding the sedan type alone.
\<close>

theorem filter_vehicles_no_fallback_type:
  "filter_vehicles [tesla_model_3_sr] (default_preferences\<lparr>vehicle_types := []\<rparr>) = []
   \<and> filter_vehicles [tesla_model_3_sr] (default_preferences\<lparr>vehicle_types := [SEDAN]\<rparr>)
       = [tesla_model_3_sr]"
  by (simp add: filter_vehicles_def skipped_def Let_def dict_get_def
      tesla_model_3_sr_def default_preferences_def)

section \<open>Properties of the scoring engine\<close>

lemma py_round1_nonneg: "0 \<le> x \<Longrightarrow> 0 \<le> py_round1 x"
  by (simp add: py_round1_def Let_def)

lemma py_round1_le_100:
  assumes "x \<le> 100"
  shows "py_round1 x \<le> 100"
proof -
  define y where "y = x * 10"
  define f where "f = \<lfloor>y\<rfloor>"
  have y: "y \<le> 1000"
    using assms by (simp add: y_def)
  have fy: "real_of_int f \<le> y"
    by (simp add: f_def)
  have f: "f \<le> 1000"
  proof -
    have "real_of_int f \<le> real_of_int 1000"
      using fy y by simp
    then show ?thesis
      by (simp only: of_int_le_iff)
  qed
  have f1: "f + 1 \<le> 1000" if "\<not> y - real_of_int f < 1 / 2"
  proof -
    have "real_of_int f < real_of_int 1000"
      using that y by simp
    then have "f < 1000"
      by (simp only: of_int_less_iff)
    then show ?thesis by simp
  qed
  have r: "real_of_int g / 10 \<le> 100" if "g \<le> 1000" for g :: int
  proof -
    have "real_of_int g \<le> real_of_int 1000"
      using that by (simp only: of_int_le_iff)
    then show ?thesis by simp
  qed
  show ?thesis
    unfolding py_round1_def Let_def y_def [symmetric] f_def [symmetric]
    using r [OF f] f1 r [of "f + 1"] by auto
qed

lemma range_score_nonneg: "0 \<le> range_score v p"
  by (simp add: range_score_def Let_def)

lemma charging_score_nonneg: "0 \<le> charging_score v"
  by (simp add: charging_score_def Let_def)

lemma eff_score_nonneg: "0 \<le> eff_score v"
  by (simp add: eff_score_def Let_def)

lemma accel_score_nonneg: "0 \<le> accel_score v"
  by (simp add: accel_score_def Let_def)

lemma cargo_score_nonneg: "0 \<le> cargo_score v p"
  by (simp add: cargo_score_def Let_def)

lemma tech_score_nonneg: "0 \<le> tech_score v"
  by (simp add: tech_score_def)

lemma safety_score_nonneg: "ratings_nonneg v \<Longrightarrow> 0 \<le> safety_score v"
  by (simp add: safety_score_def ratings_nonneg_def)

lemma reliability_score_x2_nonneg: "ratings_nonneg v \<Longrightarrow> 0 \<le> reliability_score_x2 v"
  by (simp add: reliability_score_x2_def ratings_nonneg_def)

lemma total_score_nonneg:
  assumes "priorities_nonneg p" and "ratings_nonneg v"
  shows "0 \<le> total_score v p"
  unfolding total_score_def
  using assms(1) range_score_nonneg [of v p] charging_score_nonneg [of v]
    eff_score_nonneg [of v] accel_score_nonneg [of v] cargo_score_nonneg [of v p]
    tech_score_nonneg [of v] safety_score_nonneg [OF assms(2)]
    reliability_score_x2_nonneg [OF assms(2)]
  by (intro add_nonneg_nonneg mult_nonneg_nonneg) (simp_all add: priorities_nonneg_def)

lemma brand_bonus_of_nonneg: "0 \<le> brand_bonus_of v p"
  by (simp add: brand_bonus_of_def)

text \<open>The clamp after the bonus: the upper bound holds for every input.\<close>

lemma final_score_le_100: "final_score (score_vehicle v p) \<le> 100"
  by (simp add: score_vehicle_def Let_def py_round1_le_100)

text \<open>With the preferred brand, the first catalog entry goes from 79.6 to 84.6.\<close>

lemma final_score_tesla_preferred:
  "final_score (score_vehicle tesla_model_3_sr default_preferences) = 796 / 10
   \<and> final_score (score_vehicle tesla_model_3_sr
        (default_preferences\<lparr>preferred_brands := [''Tesla'']\<rparr>)) = 846 / 10"
  by (simp add: score_vehicle_def Let_def total_score_def max_possible_def brand_bonus_of_def
      range_score_def charging_score_def eff_score_def accel_score_def safety_score_def
      reliability_score_x2_def cargo_score_def tech_score_def dict_get_def py_round1_def
      tesla_model_3_sr_def default_preferences_def)

text \<open>
  Claim C1, as amended. For every vehicle record and every preferences value the final
  score of \<^verbatim>\<open>score_vehicle\<close> is at most 100, the brand bonus of 5 and the rounding to
  one decimal included. It is at least 0 whenever no priority weight is negative (which
  covers the weights 1 to 5 of the data model and the case of all weights 0) and
  neither the safety nor the reliability rating is negative (which covers the scale 0
  to 5): the score is clamped from above only.
\<close>

theorem score_vehicle_final_score_range:
  "final_score (score_vehicle v p) \<le> 100
   \<and> (priorities_nonneg p \<and> ratings_nonneg v \<longrightarrow> 0 \<le> final_score (score_vehicle v p))"
proof (intro conjI impI)
  show "final_score (score_vehicle v p) \<le> 100"
    by (rule final_score_le_100)
next
  assume a: "priorities_nonneg p \<and> ratings_nonneg v"
  then have "0 \<le> total_score v p"
    by (simp add: total_score_nonneg)
  then have "0 \<le> (if max_possible p > 0
                    then (total_score v p / max_possible p) * 100 else 0)"
    by simp
  then have "0 \<le> min ((if max_possible p > 0
                         then (total_score v p / max_possible p) * 100 else 0)
                       + brand_bonus_of v p) 100"
    using brand_bonus_of_nonneg [of v p] by simp
  then show "0 \<le> final_score (score_vehicle v p)"
    by (simp add: score_vehicle_def Let_def py_round1_nonneg)
qed

theorem score_vehicle_final_score_range_witness:
  "priorities_nonneg (default_preferences\<lparr>preferred_brands := [''Tesla'']\<rparr>)
   \<and> ratings_nonneg tesla_model_3_sr
   \<and> 0 \<le> final_score (score_vehicle tesla_model_3_sr
            (default_preferences\<lparr>preferred_brands := [''Tesla'']\<rparr>))
   \<and> final_score (score_vehicle tesla_model_3_sr
        (default_preferences\<lparr>preferred_brands := [''Tesla'']\<rparr>)) \<le> 100"
proof -
  have a: "priorities_nonneg (default_preferences\<lparr>preferred_brands := [''Tesla'']\<rparr>)"
    by (simp add: priorities_nonneg_def default_preferences_def)
  have b: "ratings_nonneg tesla_model_3_sr"
    by (simp add: ratings_nonneg_def tesla_model_3_sr_def dict_get_def)
  show ?thesis
    using a b score_vehicle_final_score_range
                [of tesla_model_3_sr "default_preferences\<lparr>preferred_brands := [''Tesla'']\<rparr>"]
    by simp
qed

text \<open>
  Claim C1 as stated fails: the final score is below 0 for the first catalog entry
  with a safety rating of -100 under the default preferences (-256.4), and for the
  unchanged entry, whose ratings are on the scale, under preferences whose weights are
  -1 for range, 2 for acceleration and 0 elsewhere (-20).
\<close>

theorem final_score_below_zero:
  "final_score (score_vehicle (tesla_model_3_sr\<lparr>safety_rating_ncap := Some (- 100)\<rparr>)
     default_preferences) = - (2564 / 10)
   \<and> final_score (score_vehicle tesla_model_3_sr
        (default_preferences\<lparr>range_priority := - 1, charging_speed_priority := 0,
           acceleration_priority := 2, efficiency_priority := 0,
           tech_features_priority := 0, safety_priority := 0, reliability_priority := 0,
           cargo_priority := 0\<rparr>)) = - 20"
  by (simp add: score_vehicle_def Let_def total_score_def max_possible_def brand_bonus_of_def
      range_score_def charging_score_def eff_score_def accel_score_def safety_score_def
      reliability_score_x2_def cargo_score_def tech_score_def dict_get_def py_round1_def
      tesla_model_3_sr_def default_preferences_def)

end
